theory Spec2Isabelle
  imports Main "HOL-Library.Sublist"
begin

section \<open>Python values\<close>

text \<open>
  A Python \<open>str\<close> is a sequence of Unicode code points. Literals of the source are written
  \<open>str ''...''\<close>.
\<close>

type_synonym pystr = "nat list"

definition str :: "string \<Rightarrow> pystr" where
  "str s = map of_char s"

text \<open>
  A Python \<open>float\<close> is an IEEE 754 double: \<open>Finite m e\<close> is the number \<open>m * 2 ^ e\<close>
  (with \<open>\<bar>m\<bar> < 2 ^ 53\<close> and \<open>- 1074 \<le> e \<le> 971\<close>), beside the two infinities and NaN.
\<close>

datatype pyfloat = Finite int int | PosInf | NegInf | NaN

text \<open>
  What \<open>response.json()\<close> can return: the Python image of a JSON document. \<open>PNone\<close> is
  Python's \<open>None\<close>, which is also what the methods of \<open>YDConnector\<close> return for "nothing".
\<close>

datatype pyval =
    PNone
  | PBool bool
  | PInt int
  | PFloat pyfloat
  | PStr pystr
  | PList "pyval list"
  | PDict "(pystr \<times> pyval) list"

text \<open>The exceptions the program can meet.\<close>

datatype exn =
    RequestException
  | JSONDecodeError
  | AttributeError
  | TypeError
  | ValueError
  | OverflowError
  | UnicodeEncodeError
  | OSError

text \<open>
  A call of \<open>requests\<close> either raises or returns a response, of which the program reads
  \<open>status_code\<close> and \<open>json()\<close>; \<open>body = None\<close> is a body that is not JSON, on which
  \<open>json()\<close> raises.
\<close>

record response =
  status_code :: int
  body :: "pyval option"

type_synonym http_outcome = "exn + response"

definition response_json :: "response \<Rightarrow> exn + pyval" where
  "response_json r = (case body r of None \<Rightarrow> Inl JSONDecodeError | Some j \<Rightarrow> Inr j)"

text \<open>Sequencing of computations that may raise.\<close>

definition bind_exn :: "exn + 'a \<Rightarrow> ('a \<Rightarrow> exn + 'b) \<Rightarrow> exn + 'b" where
  "bind_exn m f = (case m of Inl e \<Rightarrow> Inl e | Inr x \<Rightarrow> f x)"

text \<open>\<open>try: body except Exception: return d\<close>\<close>

definition try_except :: "exn + 'a \<Rightarrow> 'a \<Rightarrow> exn + 'a" where
  "try_except b d = (case b of Inl e \<Rightarrow> Inr d | Inr x \<Rightarrow> Inr x)"

text \<open>Truth value of a Python value, as \<open>if not x\<close> tests it.\<close>

fun float_nonzero :: "pyfloat \<Rightarrow> bool" where
  "float_nonzero (Finite m e) = (m \<noteq> 0)"
| "float_nonzero PosInf = True"
| "float_nonzero NegInf = True"
| "float_nonzero NaN = True"

fun truthy :: "pyval \<Rightarrow> bool" where
  "truthy PNone = False"
| "truthy (PBool b) = b"
| "truthy (PInt n) = (n \<noteq> 0)"
| "truthy (PFloat f) = float_nonzero f"
| "truthy (PStr s) = (s \<noteq> [])"
| "truthy (PList xs) = (xs \<noteq> [])"
| "truthy (PDict d) = (d \<noteq> [])"

text \<open>
  \<open>x.get(key, default)\<close>: only a dict has the method. A dict is given by the list of its
  items, and \<open>map_of\<close> looks a key up.
\<close>

fun dict_get :: "pyval \<Rightarrow> pystr \<Rightarrow> pyval \<Rightarrow> exn + pyval" where
  "dict_get (PDict d) key dflt = Inr (case map_of d key of None \<Rightarrow> dflt | Some v \<Rightarrow> v)"
| "dict_get v key dflt = Inl AttributeError"

subsection \<open>\<open>str.split\<close>\<close>

text \<open>
  \<open>s.split(sep)\<close> for a non-empty separator: the string is scanned from the left, and
  each occurrence of the separator found closes the current piece and is skipped.
  \<open>split_scan sep piece s\<close> is the scan with \<open>piece\<close> the piece read so far. An empty
  separator raises.
\<close>

function split_scan :: "pystr \<Rightarrow> pystr \<Rightarrow> pystr \<Rightarrow> pystr list" where
  "split_scan sep piece [] = [piece]"
| "split_scan sep piece (c # cs) =
     (if sep \<noteq> [] \<and> prefix sep (c # cs)
      then piece # split_scan sep [] (drop (length sep) (c # cs))
      else split_scan sep (piece @ [c]) cs)"
  by pat_completeness auto
termination
  by (relation "measure (\<lambda>(sep, piece, s). length s)") auto

definition py_split :: "pystr \<Rightarrow> pystr \<Rightarrow> exn + pystr list" where
  "py_split s sep = (if sep = [] then Inl ValueError else Inr (split_scan sep [] s))"

subsection \<open>\<open>urllib.parse.quote\<close>\<close>

text \<open>
  The standard library's \<open>quote(string)\<close> (Python 3.7 and later) with its default
  arguments \<open>safe = '/'\<close>, \<open>encoding = 'utf-8'\<close>, \<open>errors = 'strict'\<close>: the string is encoded
  in UTF-8, which raises on a surrogate code point, and every byte that is not a letter,
  a digit, one of \<open>_.-~\<close> or the safe \<open>/\<close> is replaced by \<open>%XX\<close>, its value in two
  upper-case hexadecimal digits.
\<close>

definition utf8_encode_char :: "nat \<Rightarrow> exn + nat list" where
  "utf8_encode_char c =
     (if c < 0x80 then Inr [c]
      else if c < 0x800 then Inr [0xC0 + c div 0x40, 0x80 + c mod 0x40]
      else if 0xD800 \<le> c \<and> c < 0xE000 then Inl UnicodeEncodeError
      else if c < 0x10000
        then Inr [0xE0 + c div 0x1000, 0x80 + c div 0x40 mod 0x40, 0x80 + c mod 0x40]
      else Inr [0xF0 + c div 0x40000, 0x80 + c div 0x1000 mod 0x40,
                0x80 + c div 0x40 mod 0x40, 0x80 + c mod 0x40])"

fun utf8_encode :: "pystr \<Rightarrow> exn + nat list" where
  "utf8_encode [] = Inr []"
| "utf8_encode (c # cs) =
     bind_exn (utf8_encode_char c) (\<lambda>b. bind_exn (utf8_encode cs) (\<lambda>bs. Inr (b @ bs)))"

definition always_safe :: "nat list" where
  "always_safe =
     str ''ABCDEFGHIJKLMNOPQRSTUVWXYZabcdefghijklmnopqrstuvwxyz0123456789_.-~''"

definition hex_digit :: "nat \<Rightarrow> nat" where
  "hex_digit d = str ''0123456789ABCDEF'' ! (d mod 16)"

definition quote_byte :: "pystr \<Rightarrow> nat \<Rightarrow> pystr" where
  "quote_byte safe b =
     (if b \<in> set (always_safe @ safe) then [b]
      else str ''%'' @ [hex_digit (b div 16), hex_digit (b mod 16)])"

definition quote :: "pystr \<Rightarrow> exn + pystr" where
  "quote s =
     bind_exn (utf8_encode s) (\<lambda>bs. Inr (concat (map (quote_byte (str ''/'')) bs)))"

subsection \<open>\<open>int(x * 100)\<close>\<close>

text \<open>
  \<open>f * 100\<close> on a double: the exact product, rounded to 53 significant bits, ties to
  the even significand, and infinite from \<open>2 ^ 1024\<close> on. \<open>excess_bits n\<close> is the number
  of bits \<open>n\<close> has beyond 53.
\<close>

function excess_bits :: "nat \<Rightarrow> nat" where
  "excess_bits n = (if n < 2 ^ 53 then 0 else Suc (excess_bits (n div 2)))"
  by pat_completeness auto
termination
  by (relation "measure (\<lambda>n. n)") auto

declare excess_bits.simps [simp del]

definition round_half_even :: "nat \<Rightarrow> nat \<Rightarrow> nat" where
  "round_half_even n k =
     (let q = n div 2 ^ k; r = n mod 2 ^ k
      in if 2 ^ k < 2 * r \<or> (2 * r = 2 ^ k \<and> odd q) then q + 1 else q)"

fun float_times_100 :: "pyfloat \<Rightarrow> pyfloat" where
  "float_times_100 (Finite m e) =
     (let n = m * 100;
          k = excess_bits (nat \<bar>n\<bar>);
          q = int (round_half_even (nat \<bar>n\<bar>) k);
          e' = e + int k
      in if 0 \<le> e' \<and> 2 ^ 1024 \<le> q * 2 ^ nat e'
         then (if n < 0 then NegInf else PosInf)
         else Finite (sgn n * q) e')"
| "float_times_100 PosInf = PosInf"
| "float_times_100 NegInf = NegInf"
| "float_times_100 NaN = NaN"

text \<open>\<open>int(f)\<close> truncates towards zero, and raises on an infinity and on NaN.\<close>

fun int_of_float :: "pyfloat \<Rightarrow> exn + int" where
  "int_of_float (Finite m e) =
     Inr (if 0 \<le> e then m * 2 ^ nat e else sgn m * (\<bar>m\<bar> div 2 ^ nat (- e)))"
| "int_of_float PosInf = Inl OverflowError"
| "int_of_float NegInf = Inl OverflowError"
| "int_of_float NaN = Inl ValueError"

fun times_100 :: "pyval \<Rightarrow> exn + pyval" where
  "times_100 PNone = Inl TypeError"
| "times_100 (PBool b) = Inr (PInt (if b then 100 else 0))"
| "times_100 (PInt n) = Inr (PInt (n * 100))"
| "times_100 (PFloat f) = Inr (PFloat (float_times_100 f))"
| "times_100 (PStr s) = Inr (PStr (concat (replicate 100 s)))"
| "times_100 (PList xs) = Inr (PList (concat (replicate 100 xs)))"
| "times_100 (PDict d) = Inl TypeError"

text \<open>
  \<open>int(x)\<close>. What \<open>int\<close> makes of a string (its grammar of digits, and the limit on their
  number, which depends on the interpreter's version and settings) is the parameter
  \<open>int_of_str\<close>.
\<close>

fun py_int :: "(pystr \<Rightarrow> exn + int) \<Rightarrow> pyval \<Rightarrow> exn + int" where
  "py_int int_of_str PNone = Inl TypeError"
| "py_int int_of_str (PBool b) = Inr (if b then 1 else 0)"
| "py_int int_of_str (PInt n) = Inr n"
| "py_int int_of_str (PFloat f) = int_of_float f"
| "py_int int_of_str (PStr s) = int_of_str s"
| "py_int int_of_str (PList xs) = Inl TypeError"
| "py_int int_of_str (PDict d) = Inl TypeError"

section \<open>YDConnector\<close>

text \<open>
  Each method issues one request and then works on its outcome; the model of a method takes
  that outcome as its argument. The requests themselves are built in the section on
  \<open>main\<close>, which records them.
\<close>

text \<open>\<open>create_folder\<close>, lines 19 to 27: no \<open>try\<close> around the request.\<close>

definition create_folder :: "http_outcome \<Rightarrow> exn + bool" where
  "create_folder put =
     bind_exn put (\<lambda>response. Inr (status_code response \<in> {201, 409}))"

text \<open>\<open>upload_from_url\<close>, lines 29 to 46.\<close>

definition upload_from_url :: "http_outcome \<Rightarrow> exn + pystr option" where
  "upload_from_url post =
     try_except
       (bind_exn post (\<lambda>response.
          if status_code response \<noteq> 202 then Inr None
          else bind_exn (response_json response) (\<lambda>j.
               bind_exn (dict_get j (str ''href'') (PStr [])) (\<lambda>href.
                 case href of
                   PStr s \<Rightarrow>
                     bind_exn (py_split s (str ''operation_id='')) (\<lambda>pieces.
                       Inr (Some (last pieces)))
                 | _ \<Rightarrow> Inl AttributeError))))
       None"

text \<open>\<open>check_upload_status\<close>, lines 48 to 58, and \<open>get_file_info\<close>, lines 60 to 71.\<close>

definition check_upload_status :: "http_outcome \<Rightarrow> exn + pyval" where
  "check_upload_status get =
     try_except
       (bind_exn get (\<lambda>response.
          if status_code response = 200 then response_json response else Inr PNone))
       PNone"

definition get_file_info :: "http_outcome \<Rightarrow> exn + pyval" where
  "get_file_info get =
     try_except
       (bind_exn get (\<lambda>response.
          if status_code response = 200 then response_json response else Inr PNone))
       PNone"

text \<open>\<open>check_token\<close>, lines 73 to 80.\<close>

definition check_token :: "http_outcome \<Rightarrow> exn + bool" where
  "check_token get =
     try_except (bind_exn get (\<lambda>response. Inr (status_code response = 200))) False"

section \<open>CatImageAPI\<close>

text \<open>\<open>get_cat_with_text\<close>, lines 86 to 93.\<close>

definition get_cat_with_text :: "pystr \<Rightarrow> exn + pystr option" where
  "get_cat_with_text text =
     try_except
       (bind_exn (quote text) (\<lambda>encoded_text.
          Inr (Some (str ''https://cataas.com/cat/says/'' @ encoded_text))))
       None"

section \<open>The requests\<close>

datatype http_method = GET | PUT | POST

record request =
  meth :: http_method
  url :: pystr
  headers :: "(pystr \<times> pystr) list"
  params :: "(pystr \<times> pystr) list"

definition base_url :: pystr where
  "base_url = str ''https://cloud-api.yandex.net''"

text \<open>\<open>__init__\<close>, lines 15 to 17.\<close>

definition auth_headers :: "pystr \<Rightarrow> (pystr \<times> pystr) list" where
  "auth_headers token = [(str ''Authorization'', str ''OAuth '' @ token)]"

definition check_token_request :: "pystr \<Rightarrow> request" where
  "check_token_request token =
     \<lparr>meth = GET, url = base_url @ str ''/v1/disk/'',
      headers = auth_headers token, params = []\<rparr>"

definition create_folder_request :: "pystr \<Rightarrow> pystr \<Rightarrow> request" where
  "create_folder_request token folder_name =
     \<lparr>meth = PUT, url = base_url @ str ''/v1/disk/resources'',
      headers = auth_headers token, params = [(str ''path'', folder_name)]\<rparr>"

definition upload_request :: "pystr \<Rightarrow> pystr \<Rightarrow> pystr \<Rightarrow> request" where
  "upload_request token file_url path =
     \<lparr>meth = POST, url = base_url @ str ''/v1/disk/resources/upload'',
      headers = auth_headers token,
      params = [(str ''path'', path), (str ''url'', file_url)]\<rparr>"

definition status_request :: "pystr \<Rightarrow> pystr \<Rightarrow> request" where
  "status_request token operation_id =
     \<lparr>meth = GET, url = base_url @ str ''/v1/disk/operations/'' @ operation_id,
      headers = auth_headers token, params = []\<rparr>"

definition file_info_request :: "pystr \<Rightarrow> pystr \<Rightarrow> request" where
  "file_info_request token path =
     \<lparr>meth = GET, url = base_url @ str ''/v1/disk/resources'',
      headers = auth_headers token, params = [(str ''path'', path)]\<rparr>"

section \<open>main\<close>

text \<open>The parsed command line: \<open>args.text\<close>, \<open>args.token\<close>, \<open>args.group\<close>.\<close>

record args =
  arg_text :: pystr
  arg_token :: pystr
  arg_group :: pystr

text \<open>The dict \<open>backup_info\<close> of lines 183 to 192, one field for each key.\<close>

record manifest =
  m_timestamp :: pystr
  m_group_name :: pystr
  m_text :: pystr
  m_file_name :: pystr
  m_file_size :: pyval
  m_file_path :: pyval
  m_yandex_disk_url :: pystr
  m_source_url :: pystr

text \<open>
  The lines the program prints, one constructor for each \<open>print\<close> of the source, with the
  values it formats into the line.
\<close>

datatype message =
    MsgTitle
  | MsgText pystr
  | MsgGroup pystr
  | MsgRule
  | MsgCheckingToken
  | ErrInvalidToken
  | OkToken
  | MsgCreatingFolder
  | ErrCreateFolder
  | OkFolder
  | MsgGettingCat
  | ErrCatImage
  | OkCatImage pystr
  | MsgFileName pystr
  | MsgFullPath pystr
  | MsgStartingUpload
  | ErrStartUpload
  | MsgTracking
  | ErrUploadFailed pyval
  | MsgDone
  | MsgDoneText pystr
  | MsgDoneFileName pystr
  | MsgDoneSize pyval
  | MsgDonePath pystr
  | MsgDoneUrl pystr
  | MsgDoneSaved pystr
  | ErrNotUploaded

text \<open>What a run does to the outside, in order.\<close>

datatype event =
    Print message
  | Http request
  | Sleep nat
  | PbarOpen
  | PbarUpdate int
  | PbarSetDescription
  | PbarClose
  | WriteFile pystr manifest

text \<open>
  The outside of a run: the outcome of each request (of the \<open>i\<close>-th status request for
  \<open>poll_resp\<close>, counted from 0), the two readings of the clock as the program formats them
  (\<open>isoformat()\<close> on line 184, \<open>strftime\<close> on line 195), and whether opening and writing the
  manifest file raises.
\<close>

record world =
  token_resp :: http_outcome
  folder_resp :: http_outcome
  upload_resp :: http_outcome
  poll_resp :: "nat \<Rightarrow> http_outcome"
  info_resp :: http_outcome
  now_isoformat :: pystr
  now_strftime :: pystr
  write_raises :: "exn option"

text \<open>
  A run of \<open>main\<close> is its events and how it ended: \<open>None\<close> when \<open>main\<close> returned,
  \<open>Some e\<close> when \<open>e\<close> was raised and not caught.
\<close>

type_synonym run = "event list \<times> exn option"

definition emit :: "event list \<Rightarrow> run \<Rightarrow> run" where
  "emit evs r = (evs @ fst r, snd r)"

definition returns :: run where
  "returns = ([], None)"

definition raises :: "exn \<Rightarrow> run" where
  "raises e = ([], Some e)"

subsection \<open>The polling loop, lines 157 to 176\<close>

text \<open>
  The state of the loop is \<open>pbar.n\<close>, the progress the bar displays. A pass of the loop
  is its events, the value of \<open>pbar.n\<close> after it, and the exception that left it, if any.
  \<open>poll_loop int_of_str token operation_id polls i k n\<close> runs the last \<open>k\<close> iterations,
  the first of which makes the \<open>i\<close>-th status request, from \<open>pbar.n = n\<close>.
\<close>

type_synonym pass = "event list \<times> int \<times> exn option"

definition emit_pass :: "event list \<Rightarrow> pass \<Rightarrow> pass" where
  "emit_pass evs r = (evs @ fst r, snd r)"

fun poll_loop ::
  "(pystr \<Rightarrow> exn + int) \<Rightarrow> pystr \<Rightarrow> pystr \<Rightarrow> (nat \<Rightarrow> http_outcome) \<Rightarrow> nat \<Rightarrow> nat \<Rightarrow> int \<Rightarrow> pass"
where
  "poll_loop int_of_str token operation_id polls i 0 n = ([], n, None)"
| "poll_loop int_of_str token operation_id polls i (Suc k) n =
     emit_pass [Http (status_request token operation_id)]
       (case check_upload_status (polls i) of
          Inl e \<Rightarrow> ([], n, Some e)
        | Inr status_info \<Rightarrow>
            if \<not> truthy status_info then
              emit_pass [Sleep 2]
                (poll_loop int_of_str token operation_id polls (Suc i) k n)
            else
              (case dict_get status_info (str ''status'') PNone of
                 Inl e \<Rightarrow> ([], n, Some e)
               | Inr status \<Rightarrow>
                   if status = PStr (str ''success'') then
                     ([PbarUpdate (100 - n)], n + (100 - n), None)
                   else if status = PStr (str ''failed'') then
                     ([PbarSetDescription, Print (ErrUploadFailed status_info)], n, None)
                   else
                     (case bind_exn (dict_get status_info (str ''progress'') (PInt 0))
                             (\<lambda>p. bind_exn (times_100 p) (py_int int_of_str)) of
                        Inl e \<Rightarrow> ([], n, Some e)
                      | Inr progress \<Rightarrow>
                          emit_pass [PbarUpdate (max 0 (progress - n)), Sleep 2]
                            (poll_loop int_of_str token operation_id polls (Suc i) k
                               (n + max 0 (progress - n))))))"

subsection \<open>After the loop, lines 178 to 207\<close>

definition record_result :: "world \<Rightarrow> args \<Rightarrow> pystr \<Rightarrow> pystr \<Rightarrow> pystr \<Rightarrow> run" where
  "record_result w a file_name path cat_url =
     emit [Http (file_info_request (arg_token a) path)]
       (case get_file_info (info_resp w) of
          Inl e \<Rightarrow> raises e
        | Inr file_info \<Rightarrow>
            if truthy file_info then
              (case dict_get file_info (str ''size'') (PInt 0) of
                 Inl e \<Rightarrow> raises e
               | Inr file_size \<Rightarrow>
                   (case dict_get file_info (str ''path'') (PStr []) of
                      Inl e \<Rightarrow> raises e
                    | Inr remote_path \<Rightarrow>
                        (let yandex_disk_url =
                               str ''https://disk.yandex.ru/client/disk/'' @ arg_group a;
                             backup_info =
                               \<lparr>m_timestamp = now_isoformat w,
                                m_group_name = arg_group a,
                                m_text = arg_text a,
                                m_file_name = file_name,
                                m_file_size = file_size,
                                m_file_path = remote_path,
                                m_yandex_disk_url = yandex_disk_url,
                                m_source_url = cat_url\<rparr>;
                             json_filename =
                               str ''backup_info_'' @ now_strftime w @ str ''.json''
                         in case write_raises w of
                              Some e \<Rightarrow> raises e
                            | None \<Rightarrow>
                                emit [WriteFile json_filename backup_info,
                                      Print MsgDone,
                                      Print (MsgDoneText (arg_text a)),
                                      Print (MsgDoneFileName file_name),
                                      Print (MsgDoneSize file_size),
                                      Print (MsgDonePath path),
                                      Print (MsgDoneUrl yandex_disk_url),
                                      Print (MsgDoneSaved json_filename)]
                                  returns)))
            else emit [Print ErrNotUploaded] returns)"

subsection \<open>The \<open>with\<close> block and what follows it, lines 154 to 207\<close>

definition track_upload ::
  "(pystr \<Rightarrow> exn + int) \<Rightarrow> world \<Rightarrow> args \<Rightarrow> pystr \<Rightarrow> pystr \<Rightarrow> pystr \<Rightarrow> pystr \<Rightarrow> run"
where
  "track_upload int_of_str w a file_name path cat_url operation_id =
     (let loop = poll_loop int_of_str (arg_token a) operation_id (poll_resp w) 0 20 0
      in emit ([Print MsgTracking, PbarOpen] @ fst loop @ [PbarClose])
           (case snd (snd loop) of
              Some e \<Rightarrow> raises e
            | None \<Rightarrow> record_result w a file_name path cat_url))"

subsection \<open>\<open>main\<close>, lines 96 to 207, after the command line is parsed\<close>

definition main :: "(pystr \<Rightarrow> exn + int) \<Rightarrow> world \<Rightarrow> args \<Rightarrow> run" where
  "main int_of_str w a =
     emit [Print MsgTitle, Print (MsgText (arg_text a)), Print (MsgGroup (arg_group a)),
           Print MsgRule, Print MsgCheckingToken, Http (check_token_request (arg_token a))]
       (case check_token (token_resp w) of
          Inl e \<Rightarrow> raises e
        | Inr valid \<Rightarrow>
            if \<not> valid then emit [Print ErrInvalidToken] returns
            else
              emit [Print OkToken, Print MsgCreatingFolder,
                    Http (create_folder_request (arg_token a) (arg_group a))]
                (case create_folder (folder_resp w) of
                   Inl e \<Rightarrow> raises e
                 | Inr created \<Rightarrow>
                     if \<not> created then emit [Print ErrCreateFolder] returns
                     else
                       emit [Print OkFolder, Print MsgGettingCat]
                         (case get_cat_with_text (arg_text a) of
                            Inl e \<Rightarrow> raises e
                          | Inr None \<Rightarrow> emit [Print ErrCatImage] returns
                          | Inr (Some cat_url) \<Rightarrow>
                              if cat_url = [] then emit [Print ErrCatImage] returns
                              else
                                (let file_name = arg_text a @ str ''.jpg'';
                                     path = arg_group a @ str ''/'' @ file_name
                                 in emit [Print (OkCatImage cat_url),
                                          Print (MsgFileName file_name),
                                          Print (MsgFullPath path),
                                          Print MsgStartingUpload,
                                          Http (upload_request (arg_token a) cat_url path)]
                                      (case upload_from_url (upload_resp w) of
                                         Inl e \<Rightarrow> raises e
                                       | Inr None \<Rightarrow> emit [Print ErrStartUpload] returns
                                       | Inr (Some operation_id) \<Rightarrow>
                                           if operation_id = []
                                           then emit [Print ErrStartUpload] returns
                                           else track_upload int_of_str w a file_name path
                                                  cat_url operation_id)))))"

section \<open>Notions used in the properties\<close>

text \<open>
  A separator is border-free when none of its proper prefixes is also its suffix: two of
  its occurrences in a string never overlap.
\<close>

definition border_free :: "pystr \<Rightarrow> bool" where
  "border_free sep = list_all (\<lambda>k. take k sep \<noteq> drop (length sep - k) sep) [1..<length sep]"










text \<open>The files a run writes, in order: the name and the manifest of each.\<close>

fun written :: "event \<Rightarrow> (pystr \<times> manifest) list" where
  "written (WriteFile name m) = [(name, m)]"
| "written e = []"

definition written_files :: "event list \<Rightarrow> (pystr \<times> manifest) list" where
  "written_files evs = concat (map written evs)"

section \<open>Example inputs\<close>

text \<open>The command line of the examples: \<open>--text hi --group cats\<close>, and some token.\<close>

definition example_args :: args where
  "example_args = \<lparr>arg_text = str ''hi'', arg_token = str ''y0_token'', arg_group = str ''cats''\<rparr>"

definition href_response :: "pystr \<Rightarrow> response" where
  "href_response h = \<lparr>status_code = 202, body = Some (PDict [(str ''href'', PStr h)])\<rparr>"

definition status_response :: "pystr \<Rightarrow> response" where
  "status_response s = \<lparr>status_code = 200, body = Some (PDict [(str ''status'', PStr s)])\<rparr>"

text \<open>
  A world in which every call succeeds: the token is valid, the folder is created, the
  upload is accepted with operation id \<open>ABC123\<close>, every status request answers
  \<open>success\<close>, and the file information is the dict \<open>info\<close>.
\<close>

definition success_world :: "(pystr \<times> pyval) list \<Rightarrow> world" where
  "success_world info =
     \<lparr>token_resp = Inr \<lparr>status_code = 200, body = Some (PDict [])\<rparr>,
      folder_resp = Inr \<lparr>status_code = 201, body = Some (PDict [])\<rparr>,
      upload_resp = Inr (href_response
        (str ''https://cloud-api.yandex.net/v1/disk/operations?operation_id=ABC123'')),
      poll_resp = (\<lambda>i. Inr (status_response (str ''success''))),
      info_resp = Inr \<lparr>status_code = 200, body = Some (PDict info)\<rparr>,
      now_isoformat = str ''2024-05-01T12:00:00.000001'',
      now_strftime = str ''20240501_120000'',
      write_raises = None\<rparr>"

text \<open>
  The doubles nearest to 0.3 and 0.6 (\<open>0x1.3333333333333p-2\<close> and
  \<open>0x1.3333333333333p-1\<close>), and a status payload with a progress.
\<close>

definition double_0_3 :: pyfloat where
  "double_0_3 = Finite 5404319552844595 (- 54)"

definition double_0_6 :: pyfloat where
  "double_0_6 = Finite 5404319552844595 (- 53)"

definition progress_response :: "pystr \<Rightarrow> pyfloat \<Rightarrow> response" where
  "progress_response s f =
     \<lparr>status_code = 200,
      body = Some (PDict [(str ''status'', PStr s), (str ''progress'', PFloat f)])\<rparr>"

section \<open>Properties\<close>

subsection \<open>Splitting at a separator\<close>

lemma split_scan_nonempty: "split_scan sep piece s \<noteq> []"
  by (induction sep piece s rule: split_scan.induct) auto

lemma split_scan_no_sep:
  "\<not> sublist sep s \<Longrightarrow> split_scan sep piece s = [piece @ s]"
proof (induction s arbitrary: piece)
  case Nil
  then show ?case by simp
next
  case (Cons c cs)
  from Cons.prems have np: "\<not> prefix sep (c # cs)" and ns: "\<not> sublist sep cs"
    by (auto simp: sublist_Cons_right)
  from Cons.IH [OF ns, of "piece @ [c]"] np show ?case by simp
qed

lemma marker_border_free: "border_free (str ''operation_id='')"
  by (simp add: border_free_def str_def upt_rec)

lemma border_free_no_overlap:
  assumes bf: "border_free sep" and pre: "prefix sep (pre @ sep @ rest)"
    and ne: "pre \<noteq> []"
  shows "length sep \<le> length pre"
proof (rule ccontr)
  assume "\<not> length sep \<le> length pre"
  then have lt: "length pre < length sep" by simp
  define k where "k = length sep - length pre"
  from ne have pos: "0 < length pre" by simp
  have k: "0 < k" "k < length sep" using lt pos unfolding k_def by linarith+
  from pre have eq: "take (length sep) (pre @ sep @ rest) = sep"
    by (metis append_eq_conv_conj prefix_def)
  from lt have "take (length sep) (pre @ sep @ rest) = pre @ take k sep"
    by (simp add: k_def)
  with eq have s: "sep = pre @ take k sep" by simp
  then have "drop (length pre) sep = take k sep"
    by (metis append_eq_conv_conj)
  moreover have "length sep - k = length pre" using lt by (simp add: k_def)
  ultimately have "take k sep = drop (length sep - k) sep" by simp
  moreover from bf k have "take k sep \<noteq> drop (length sep - k) sep"
    by (simp add: border_free_def list_all_iff)
  ultimately show False by simp
qed

lemma split_scan_last:
  assumes bf: "border_free sep" and ne: "sep \<noteq> []" and ns: "\<not> sublist sep ident"
  shows "last (split_scan sep piece (pre @ sep @ ident)) = ident"
proof (induction "length pre" arbitrary: pre piece rule: less_induct)
  case less
  show ?case
  proof (cases pre)
    case Nil
    from ne obtain c cs where sep: "sep = c # cs" by (cases sep) auto
    have "split_scan sep piece (sep @ ident) = piece # split_scan sep [] ident"
      using sep by simp
    with split_scan_no_sep [OF ns, of "[]"] Nil show ?thesis by simp
  next
    case (Cons c pre')
    show ?thesis
    proof (cases "prefix sep (pre @ sep @ ident)")
      case True
      from border_free_no_overlap [OF bf True] Cons have le: "length sep \<le> length pre" by simp
      have d: "drop (length sep) (pre @ sep @ ident) = drop (length sep) pre @ sep @ ident"
        using le by simp
      have "length (drop (length sep) pre) < length pre" using ne Cons by (cases sep) auto
      from less [OF this, of "[]"] have
        "last (split_scan sep [] (drop (length sep) pre @ sep @ ident)) = ident" .
      moreover have "split_scan sep piece (pre @ sep @ ident) =
          piece # split_scan sep [] (drop (length sep) (pre @ sep @ ident))"
        using True ne Cons by simp
      ultimately show ?thesis using d split_scan_nonempty by simp
    next
      case False
      then have "split_scan sep piece (pre @ sep @ ident) =
          split_scan sep (piece @ [c]) (pre' @ sep @ ident)"
        using Cons by simp
      moreover have "length pre' < length pre" using Cons by simp
      ultimately show ?thesis using less by simp
    qed
  qed
qed

subsection \<open>\<open>int(f * 100)\<close> on a fraction\<close>







subsection \<open>The polling loop\<close>

declare poll_loop.simps(2) [simp del]








text \<open>
  Both doubles have the significand 5404319552844595, which times 100 has 6 bits beyond
  53 and is rounded to \<open>30 * 2 ^ 48\<close>.
\<close>

lemma excess_bits_example: "excess_bits 540431955284459500 = 6"
  by (simp add: excess_bits.simps)

lemma round_half_even_example: "round_half_even 540431955284459500 6 = 8444249301319680"
  by (simp add: round_half_even_def Let_def)

lemma percent_0_3: "int_of_float (float_times_100 double_0_3) = Inr 30"
  by (simp add: double_0_3_def Let_def excess_bits_example round_half_even_example)

lemma percent_0_6: "int_of_float (float_times_100 double_0_6) = Inr 60"
  by (simp add: double_0_6_def Let_def excess_bits_example round_half_even_example)


lemma success_step:
  assumes "polls i = Inr r" and "status_code r = 200" and "body r = Some (PDict d)"
    and "map_of d (str ''status'') = Some (PStr (str ''success''))"
  shows "poll_loop ios t opid polls i (Suc k) n =
           ([Http (status_request t opid), PbarUpdate (100 - n)], 100, None)"
proof -
  from assms(4) have "d \<noteq> []" by auto
  then show ?thesis using assms
    by (simp add: check_upload_status_def try_except_def bind_exn_def response_json_def
        emit_pass_def poll_loop.simps(2))
qed

lemma poll_loop_first:
  "\<exists>rest. fst (poll_loop ios t opid polls i (Suc k) n) = Http (status_request t opid) # rest"
  by (simp add: poll_loop.simps(2) emit_pass_def)

lemma poll_loop_prints:
  "Print m \<in> set (fst (poll_loop ios t opid polls i k n)) \<Longrightarrow> \<exists>v. m = ErrUploadFailed v"
proof (induction k arbitrary: i n)
  case 0
  then show ?case by simp
next
  case (Suc k)
  then show ?case
    by (auto simp: poll_loop.simps(2) emit_pass_def split: sum.splits if_splits)
qed

lemma record_result_prints:
  "Print ErrStartUpload \<notin> set (fst (record_result w a file_name path cat_url))"
  by (auto simp: record_result_def emit_def returns_def raises_def Let_def
      split: sum.splits option.splits if_splits)

lemma track_upload_events:
  "Print ErrStartUpload \<notin> set (fst (track_upload ios w a file_name path cat_url opid))"
  "Http (status_request (arg_token a) opid)
     \<in> set (fst (track_upload ios w a file_name path cat_url opid))"
proof -
  show "Print ErrStartUpload \<notin> set (fst (track_upload ios w a file_name path cat_url opid))"
    using poll_loop_prints [of ErrStartUpload ios "arg_token a" opid "poll_resp w" 0 20 0]
      record_result_prints [of w a file_name path cat_url]
    by (auto simp: track_upload_def emit_def raises_def Let_def split: option.splits)
  from poll_loop_first [of ios "arg_token a" opid "poll_resp w" 0 19 0]
  obtain rest where "fst (poll_loop ios (arg_token a) opid (poll_resp w) 0 20 0) =
      Http (status_request (arg_token a) opid) # rest" by auto
  then show "Http (status_request (arg_token a) opid)
     \<in> set (fst (track_upload ios w a file_name path cat_url opid))"
    by (simp add: track_upload_def emit_def Let_def)
qed


lemma first_poll_success:
  assumes "polls 0 = Inr r" and "status_code r = 200" and "body r = Some (PDict d)"
    and "map_of d (str ''status'') = Some (PStr (str ''success''))"
  shows "poll_loop ios t opid polls 0 20 0 =
           ([Http (status_request t opid), PbarUpdate 100], 100, None)"
  using success_step [of polls 0 r d ios t opid 19 0, OF assms] by simp

subsection \<open>The image URL\<close>













lemma get_cat_with_text_unencodable:
  "utf8_encode t = Inl e \<Longrightarrow> get_cat_with_text t = Inr None"
  by (simp add: get_cat_with_text_def quote_def bind_exn_def try_except_def)

lemma example_url:
  "get_cat_with_text (str ''a b&c'') = Inr (Some (str ''https://cataas.com/cat/says/a%20b%26c''))"
  by (simp add: get_cat_with_text_def quote_def bind_exn_def try_except_def
      utf8_encode_char_def quote_byte_def always_safe_def str_def hex_digit_def)




subsection \<open>The connector\<close>

lemma upload_from_url_id:
  assumes "status_code r = 202" and "body r = Some (PDict d)"
    and "map_of d (str ''href'') = Some (PStr (pre @ str ''operation_id='' @ ident))"
    and "\<not> sublist (str ''operation_id='') ident"
  shows "upload_from_url (Inr r) = Inr (Some ident)"
proof -
  have ne: "str ''operation_id='' \<noteq> []" by (simp add: str_def)
  from split_scan_last [OF marker_border_free ne assms(4), of "[]" pre]
  show ?thesis using assms(1-3) ne
    by (simp add: upload_from_url_def try_except_def bind_exn_def response_json_def
        py_split_def)
qed

lemma upload_from_url_no_marker:
  assumes "status_code r = 202" and "body r = Some (PDict d)"
    and "map_of d (str ''href'') = Some (PStr s) \<or> (map_of d (str ''href'') = None \<and> s = [])"
    and "\<not> sublist (str ''operation_id='') s"
  shows "upload_from_url (Inr r) = Inr (Some s)"
proof -
  have ne: "str ''operation_id='' \<noteq> []" by (simp add: str_def)
  from split_scan_no_sep [OF assms(4), of "[]"]
  show ?thesis using assms(1-3) ne
    by (auto simp: upload_from_url_def try_except_def bind_exn_def response_json_def
        py_split_def)
qed

text \<open>
  C8. Whatever the outcome of the credential request, \<open>check_token\<close> returns and does not
  raise: it returns true on a response with status 200, false on a response with any
  other status, and false when the request raised.
\<close>

theorem check_token_only_200:
  "check_token (Inr r) = Inr (status_code r = 200) \<and> check_token (Inl e) = Inr False"
  by (simp add: check_token_def try_except_def bind_exn_def)

text \<open>
  The folder request. On a response, \<open>create_folder\<close> returns whether the status is 201
  or 409. The request is not inside a \<open>try\<close>: when it raises, \<open>create_folder\<close> raises
  too, and so does \<open>main\<close>.
\<close>

lemma create_folder_status:
  "create_folder (Inr r) = Inr (status_code r = 201 \<or> status_code r = 409)"
  by (simp add: create_folder_def bind_exn_def)

lemma main_raises_in_create_folder:
  "token_resp w = Inr r \<Longrightarrow> status_code r = 200 \<Longrightarrow> folder_resp w = Inl e \<Longrightarrow>
   snd (main int_of_str w a) = Some e"
  by (simp add: main_def emit_def raises_def check_token_def create_folder_def
      try_except_def bind_exn_def)

text \<open>
  C1, at the failing input: the folder request raises a transport exception, and
  \<open>create_folder\<close> raises it instead of returning false.
\<close>

theorem create_folder_raises:
  "create_folder (Inl RequestException) = Inl RequestException"
  by (simp add: create_folder_def bind_exn_def)

text \<open>
  C6. On a response with status 202 whose \<open>href\<close> is some text, the marker
  \<open>operation_id=\<close>, and an id in which the marker does not occur again,
  \<open>upload_from_url\<close> returns the id. On a response with another status, and when the
  request raises, it returns \<open>None\<close>.
\<close>

theorem upload_from_url_operation_id:
  "(status_code r = 202 \<and> body r = Some (PDict d) \<and>
    map_of d (str ''href'') = Some (PStr (pre @ str ''operation_id='' @ ident)) \<and>
    \<not> sublist (str ''operation_id='') ident
      \<longrightarrow> upload_from_url (Inr r) = Inr (Some ident)) \<and>
   (status_code r' \<noteq> 202 \<longrightarrow> upload_from_url (Inr r') = Inr None) \<and>
   upload_from_url (Inl e) = Inr None"
  using upload_from_url_id [of r d pre ident]
  by (simp add: upload_from_url_def try_except_def bind_exn_def)

theorem upload_from_url_operation_id_witness:
  "upload_from_url
     (Inr (href_response
        (str ''https://cloud-api.yandex.net/v1/disk/operations?operation_id=ABC123'')))
     = Inr (Some (str ''ABC123'')) \<and>
   upload_from_url (Inr \<lparr>status_code = 404, body = None\<rparr>) = Inr None \<and>
   upload_from_url (Inl RequestException) = Inr None"
  using upload_from_url_operation_id
    [of "href_response
           (str ''https://cloud-api.yandex.net/v1/disk/operations?operation_id=ABC123'')"
        "[(str ''href'',
           PStr (str ''https://cloud-api.yandex.net/v1/disk/operations?operation_id=ABC123''))]"
        "str ''https://cloud-api.yandex.net/v1/disk/operations?''"
        "str ''ABC123''"
        "\<lparr>status_code = 404, body = None\<rparr>" RequestException]
  by (simp add: href_response_def str_def sublist_Cons_right)

subsection \<open>The run\<close>

text \<open>
  C9. When the credential request is answered with a status other than 200, the run is
  the opening lines, the credential request and the line on the invalid token, and
  \<open>main\<close> returns: the credential request is the only request of the run, so no folder
  is created, and no file is written.
\<close>

theorem invalid_token_ends_run:
  assumes "token_resp w = Inr r" and "status_code r \<noteq> 200"
  shows "main int_of_str w a =
     ([Print MsgTitle, Print (MsgText (arg_text a)), Print (MsgGroup (arg_group a)),
       Print MsgRule, Print MsgCheckingToken, Http (check_token_request (arg_token a)),
       Print ErrInvalidToken], None) \<and>
     Http (create_folder_request token folder_name) \<notin> set (fst (main int_of_str w a)) \<and>
     WriteFile json_filename backup_info \<notin> set (fst (main int_of_str w a)) \<and>
     snd (main int_of_str w a) = None"
  using assms
  by (simp add: main_def emit_def returns_def check_token_def try_except_def bind_exn_def
      check_token_request_def create_folder_request_def)

theorem invalid_token_ends_run_witness:
  "main (\<lambda>s. Inl ValueError)
     ((success_world [])\<lparr>token_resp := Inr \<lparr>status_code = 401, body = None\<rparr>\<rparr>) example_args =
     ([Print MsgTitle, Print (MsgText (str ''hi'')), Print (MsgGroup (str ''cats'')),
       Print MsgRule, Print MsgCheckingToken, Http (check_token_request (str ''y0_token'')),
       Print ErrInvalidToken], None)"
  using invalid_token_ends_run
    [of "(success_world [])\<lparr>token_resp := Inr \<lparr>status_code = 401, body = None\<rparr>\<rparr>"
        "\<lparr>status_code = 401, body = None\<rparr>" "\<lambda>s. Inl ValueError" example_args]
  by (simp add: success_world_def example_args_def)

subsection \<open>The polling loop in the run\<close>






text \<open>
  C5. When the first three polls return a payload that is not terminal with progress 0.3,
  one with progress 0.6, and one with status \<open>success\<close>, the bar is moved by 30, by 30
  and by 40: it displays 30, 60 and, at the third poll, 100, and the loop ends there,
  after 3 of its 20 requests.
\<close>

theorem progress_reaches_100:
  assumes "polls 0 = Inr (progress_response s0 double_0_3)"
    and "polls 1 = Inr (progress_response s1 double_0_6)"
    and "polls 2 = Inr (status_response (str ''success''))"
    and "s0 \<noteq> str ''success''" and "s0 \<noteq> str ''failed''"
    and "s1 \<noteq> str ''success''" and "s1 \<noteq> str ''failed''"
  shows "poll_loop ios t opid polls 0 20 0 =
     ([Http (status_request t opid), PbarUpdate 30, Sleep 2,
       Http (status_request t opid), PbarUpdate 30, Sleep 2,
       Http (status_request t opid), PbarUpdate 40], 100, None)"
proof -
  have neq: "str ''status'' \<noteq> str ''progress''" by (simp add: str_def)
  from assms(3) have p2: "polls (Suc (Suc 0)) = Inr (status_response (str ''success''))"
    by (simp add: numeral_2_eq_2)
  have "poll_loop ios t opid polls 0 (Suc (Suc (Suc k))) 0 =
     ([Http (status_request t opid), PbarUpdate 30, Sleep 2,
       Http (status_request t opid), PbarUpdate 30, Sleep 2,
       Http (status_request t opid), PbarUpdate 40], 100, None)" for k
    using assms(1,2,4-7) p2 neq
    by (simp add: check_upload_status_def try_except_def bind_exn_def response_json_def
        emit_pass_def progress_response_def status_response_def percent_0_3 percent_0_6
        poll_loop.simps(2)
        del: float_times_100.simps int_of_float.simps)
  from this [of 17] show ?thesis by simp
qed

theorem progress_reaches_100_witness:
  "poll_loop (\<lambda>s. Inl ValueError) (str ''y0_token'') (str ''ABC123'')
     (\<lambda>i. if i = 0 then Inr (progress_response (str ''in-progress'') double_0_3)
          else if i = 1 then Inr (progress_response (str ''in-progress'') double_0_6)
          else Inr (status_response (str ''success''))) 0 20 0 =
     ([Http (status_request (str ''y0_token'') (str ''ABC123'')), PbarUpdate 30, Sleep 2,
       Http (status_request (str ''y0_token'') (str ''ABC123'')), PbarUpdate 30, Sleep 2,
       Http (status_request (str ''y0_token'') (str ''ABC123'')), PbarUpdate 40], 100, None)"
  by (rule progress_reaches_100 [where ?s0.0 = "str ''in-progress''"
        and ?s1.0 = "str ''in-progress''"])
     (simp_all add: str_def)

subsection \<open>The whole run\<close>

lemma successful_run:
  assumes "arg_text a = str ''hi''" and "arg_group a = str ''cats''"
    and "token_resp w = Inr rt" and "status_code rt = 200"
    and "folder_resp w = Inr rf" and "status_code rf = 201"
    and "upload_from_url (upload_resp w) = Inr (Some operation_id)" and "operation_id \<noteq> []"
    and "poll_resp w 0 = Inr rp" and "status_code rp = 200" and "body rp = Some (PDict dp)"
    and "map_of dp (str ''status'') = Some (PStr (str ''success''))"
    and "info_resp w = Inr ri" and "status_code ri = 200" and "body ri = Some (PDict di)"
    and "map_of di (str ''size'') = Some (PInt 1234)"
    and "write_raises w = None"
  shows "written_files (fst (main ios w a)) =
           [(str ''backup_info_'' @ now_strftime w @ str ''.json'',
             \<lparr>m_timestamp = now_isoformat w,
              m_group_name = str ''cats'',
              m_text = str ''hi'',
              m_file_name = str ''hi.jpg'',
              m_file_size = PInt 1234,
              m_file_path = (case map_of di (str ''path'') of None \<Rightarrow> PStr [] | Some p \<Rightarrow> p),
              m_yandex_disk_url = str ''https://disk.yandex.ru/client/disk/cats'',
              m_source_url = str ''https://cataas.com/cat/says/hi''\<rparr>)] \<and>
         snd (main ios w a) = None"
proof -
  have url: "get_cat_with_text (str ''hi'') = Inr (Some (str ''https://cataas.com/cat/says/hi''))"
    by (simp add: get_cat_with_text_def quote_def bind_exn_def try_except_def
        utf8_encode_char_def quote_byte_def always_safe_def str_def)
  have ne: "str ''https://cataas.com/cat/says/hi'' \<noteq> []" by (simp add: str_def)
  from assms(16) have di: "di \<noteq> []" by auto
  note loop = first_poll_success [of "poll_resp w" rp dp ios "arg_token a" operation_id,
      OF assms(9-12)]
  have rec: "record_result w a (str ''hi.jpg'') (str ''cats/hi.jpg'')
        (str ''https://cataas.com/cat/says/hi'') =
      ([Http (file_info_request (arg_token a) (str ''cats/hi.jpg'')),
        WriteFile (str ''backup_info_'' @ now_strftime w @ str ''.json'')
          \<lparr>m_timestamp = now_isoformat w,
           m_group_name = str ''cats'',
           m_text = str ''hi'',
           m_file_name = str ''hi.jpg'',
           m_file_size = PInt 1234,
           m_file_path = (case map_of di (str ''path'') of None \<Rightarrow> PStr [] | Some p \<Rightarrow> p),
           m_yandex_disk_url = str ''https://disk.yandex.ru/client/disk/cats'',
           m_source_url = str ''https://cataas.com/cat/says/hi''\<rparr>,
        Print MsgDone, Print (MsgDoneText (str ''hi'')), Print (MsgDoneFileName (str ''hi.jpg'')),
        Print (MsgDoneSize (PInt 1234)), Print (MsgDonePath (str ''cats/hi.jpg'')),
        Print (MsgDoneUrl (str ''https://disk.yandex.ru/client/disk/cats'')),
        Print (MsgDoneSaved (str ''backup_info_'' @ now_strftime w @ str ''.json''))], None)"
    using assms(1,2,13-17) di
    by (simp add: record_result_def get_file_info_def try_except_def bind_exn_def
        response_json_def emit_def returns_def Let_def str_def)
  have names: "str ''hi'' @ str ''.jpg'' = str ''hi.jpg''"
      "str ''cats'' @ str ''/'' @ str ''hi.jpg'' = str ''cats/hi.jpg''"
    by (simp_all add: str_def)
  have track: "track_upload ios w a (str ''hi.jpg'') (str ''cats/hi.jpg'')
        (str ''https://cataas.com/cat/says/hi'') operation_id =
      emit [Print MsgTracking, PbarOpen, Http (status_request (arg_token a) operation_id),
            PbarUpdate 100, PbarClose]
        (record_result w a (str ''hi.jpg'') (str ''cats/hi.jpg'')
           (str ''https://cataas.com/cat/says/hi''))"
    using loop by (simp add: track_upload_def)
  show ?thesis
    using assms(1-8) url ne
    by (simp add: main_def check_token_def create_folder_def try_except_def bind_exn_def
        names track rec emit_def returns_def written_files_def Let_def)
qed


lemma success_world_upload:
  "upload_from_url (upload_resp (success_world info)) = Inr (Some (str ''ABC123''))"
  using upload_from_url_id
    [of "href_response
           (str ''https://cloud-api.yandex.net/v1/disk/operations?operation_id=ABC123'')"
        "[(str ''href'',
           PStr (str ''https://cloud-api.yandex.net/v1/disk/operations?operation_id=ABC123''))]"
        "str ''https://cloud-api.yandex.net/v1/disk/operations?''" "str ''ABC123''"]
  by (simp add: success_world_def href_response_def str_def sublist_Cons_right)

text \<open>
  C3, as stated, fails on the field \<open>file_path\<close>: the manifest takes it from the file
  information the service returns, not from the path the program built. When the service
  reports the path as \<open>disk:/cats/hi.jpg\<close>, that is the \<open>file_path\<close> of the manifest.
\<close>

theorem manifest_path_differs:
  "map (\<lambda>f. (m_file_name (snd f), m_file_size (snd f), m_file_path (snd f)))
     (written_files (fst (main (\<lambda>s. Inl ValueError)
        (success_world [(str ''size'', PInt 1234), (str ''path'', PStr (str ''disk:/cats/hi.jpg''))])
        example_args))) =
     [(str ''hi.jpg'', PInt 1234, PStr (str ''disk:/cats/hi.jpg''))] \<and>
   PStr (str ''disk:/cats/hi.jpg'') \<noteq> PStr (str ''cats/hi.jpg'')"
  using successful_run
    [of example_args
        "success_world [(str ''size'', PInt 1234), (str ''path'', PStr (str ''disk:/cats/hi.jpg''))]"
        "\<lparr>status_code = 200, body = Some (PDict [])\<rparr>"
        "\<lparr>status_code = 201, body = Some (PDict [])\<rparr>"
        "str ''ABC123''" "status_response (str ''success'')"
        "[(str ''status'', PStr (str ''success''))]"
        "\<lparr>status_code = 200, body = Some (PDict
            [(str ''size'', PInt 1234), (str ''path'', PStr (str ''disk:/cats/hi.jpg''))])\<rparr>"
        "[(str ''size'', PInt 1234), (str ''path'', PStr (str ''disk:/cats/hi.jpg''))]"
        "\<lambda>s. Inl ValueError"]
    success_world_upload
      [of "[(str ''size'', PInt 1234), (str ''path'', PStr (str ''disk:/cats/hi.jpg''))]"]
  by (simp add: success_world_def example_args_def status_response_def str_def)

text \<open>
  C3, amended. For \<open>--text hi --group cats\<close>, when the token is valid, the folder is
  created, the upload is accepted, the first poll returns \<open>success\<close>, the file information
  has size 1234 and the file can be written, the run writes one file: a manifest whose
  \<open>file_name\<close> is \<open>hi.jpg\<close>, whose \<open>file_size\<close> is 1234, and whose \<open>file_path\<close> is the
  \<open>path\<close> of the file information, or the empty string when it has none; and \<open>main\<close>
  returns.
\<close>

theorem manifest_of_successful_run:
  assumes "arg_text a = str ''hi''" and "arg_group a = str ''cats''"
    and "token_resp w = Inr rt" and "status_code rt = 200"
    and "folder_resp w = Inr rf" and "status_code rf = 201"
    and "upload_from_url (upload_resp w) = Inr (Some operation_id)" and "operation_id \<noteq> []"
    and "poll_resp w 0 = Inr rp" and "status_code rp = 200" and "body rp = Some (PDict dp)"
    and "map_of dp (str ''status'') = Some (PStr (str ''success''))"
    and "info_resp w = Inr ri" and "status_code ri = 200" and "body ri = Some (PDict di)"
    and "map_of di (str ''size'') = Some (PInt 1234)"
    and "write_raises w = None"
  shows "written_files (fst (main ios w a)) =
           [(str ''backup_info_'' @ now_strftime w @ str ''.json'',
             \<lparr>m_timestamp = now_isoformat w,
              m_group_name = str ''cats'',
              m_text = str ''hi'',
              m_file_name = str ''hi.jpg'',
              m_file_size = PInt 1234,
              m_file_path = (case map_of di (str ''path'') of None \<Rightarrow> PStr [] | Some p \<Rightarrow> p),
              m_yandex_disk_url = str ''https://disk.yandex.ru/client/disk/cats'',
              m_source_url = str ''https://cataas.com/cat/says/hi''\<rparr>)] \<and>
         snd (main ios w a) = None"
  using assms by (rule successful_run)

theorem manifest_of_successful_run_witness:
  "written_files (fst (main (\<lambda>s. Inl ValueError)
      (success_world [(str ''size'', PInt 1234)]) example_args)) =
     [(str ''backup_info_20240501_120000.json'',
       \<lparr>m_timestamp = str ''2024-05-01T12:00:00.000001'',
        m_group_name = str ''cats'',
        m_text = str ''hi'',
        m_file_name = str ''hi.jpg'',
        m_file_size = PInt 1234,
        m_file_path = PStr [],
        m_yandex_disk_url = str ''https://disk.yandex.ru/client/disk/cats'',
        m_source_url = str ''https://cataas.com/cat/says/hi''\<rparr>)] \<and>
   snd (main (\<lambda>s. Inl ValueError) (success_world [(str ''size'', PInt 1234)]) example_args)
     = None"
  using manifest_of_successful_run
    [of example_args "success_world [(str ''size'', PInt 1234)]"
        "\<lparr>status_code = 200, body = Some (PDict [])\<rparr>"
        "\<lparr>status_code = 201, body = Some (PDict [])\<rparr>"
        "str ''ABC123''" "status_response (str ''success'')"
        "[(str ''status'', PStr (str ''success''))]"
        "\<lparr>status_code = 200, body = Some (PDict [(str ''size'', PInt 1234)])\<rparr>"
        "[(str ''size'', PInt 1234)]" "\<lambda>s. Inl ValueError"]
    success_world_upload [of "[(str ''size'', PInt 1234)]"]
  by (simp add: success_world_def example_args_def status_response_def str_def)

text \<open>
  C10. On a response with status 202 whose \<open>href\<close> does not contain the marker, or which
  has no \<open>href\<close> (then \<open>s\<close> is the empty string), \<open>upload_from_url\<close> returns the whole
  \<open>href\<close>. In a run that comes to the upload, \<open>main\<close> prints the line on the failed start
  exactly when that string is empty, and then returns; otherwise it polls the operation named
  by the whole \<open>href\<close>.
\<close>

theorem href_without_marker:
  assumes "status_code r = 202" and "body r = Some (PDict d)"
    and "map_of d (str ''href'') = Some (PStr s) \<or> (map_of d (str ''href'') = None \<and> s = [])"
    and "\<not> sublist (str ''operation_id='') s"
    and "token_resp w = Inr rt" and "status_code rt = 200"
    and "folder_resp w = Inr rf" and "status_code rf = 201 \<or> status_code rf = 409"
    and "utf8_encode (arg_text a) = Inr bs"
    and "upload_resp w = Inr r"
  shows "upload_from_url (Inr r) = Inr (Some s) \<and>
         (Print ErrStartUpload \<in> set (fst (main ios w a))) = (s = []) \<and>
         (Http (status_request (arg_token a) s) \<in> set (fst (main ios w a))) = (s \<noteq> []) \<and>
         (s = [] \<longrightarrow> snd (main ios w a) = None)"
proof -
  note up = upload_from_url_no_marker [OF assms(1-4)]
  define enc where "enc = concat (map (quote_byte (str ''/'')) bs)"
  have url: "get_cat_with_text (arg_text a) =
      Inr (Some (str ''https://cataas.com/cat/says/'' @ enc))"
    using assms(9) by (simp add: get_cat_with_text_def quote_def bind_exn_def try_except_def enc_def)
  have ne: "str ''https://cataas.com/cat/says/'' @ enc \<noteq> []" by (simp add: str_def)
  have tok: "check_token (token_resp w) = Inr True"
    using assms(5,6) by (simp add: check_token_def try_except_def bind_exn_def)
  have fol: "create_folder (folder_resp w) = Inr True"
    using assms(7,8) by (auto simp: create_folder_def bind_exn_def)
  have reqs: "status_request (arg_token a) s \<noteq> check_token_request (arg_token a)"
      "status_request (arg_token a) s \<noteq> create_folder_request (arg_token a) (arg_group a)"
      "status_request (arg_token a) s \<noteq> upload_request (arg_token a) u p" for u p
    by (simp_all add: status_request_def check_token_request_def create_folder_request_def
        upload_request_def base_url_def str_def)
  show ?thesis
  proof (cases "s = []")
    case True
    with up url ne tok fol assms(10) reqs show ?thesis
      by (simp add: main_def emit_def returns_def Let_def)
  next
    case False
    with up url ne tok fol assms(10) reqs
      track_upload_events [where ios = ios and w = w and a = a
        and file_name = "arg_text a @ str ''.jpg''"
        and path = "arg_group a @ str ''/'' @ arg_text a @ str ''.jpg''"
        and cat_url = "str ''https://cataas.com/cat/says/'' @ enc" and opid = s]
    show ?thesis
      by (simp add: main_def emit_def returns_def Let_def)
  qed
qed

theorem href_without_marker_witness:
  "upload_from_url (Inr (href_response (str ''https://cloud-api.yandex.net/v1/disk/operations/77'')))
     = Inr (Some (str ''https://cloud-api.yandex.net/v1/disk/operations/77'')) \<and>
   Print ErrStartUpload \<notin> set (fst (main (\<lambda>s. Inl ValueError)
     ((success_world [])\<lparr>upload_resp := Inr (href_response
        (str ''https://cloud-api.yandex.net/v1/disk/operations/77''))\<rparr>) example_args)) \<and>
   Http (status_request (str ''y0_token'') (str ''https://cloud-api.yandex.net/v1/disk/operations/77''))
     \<in> set (fst (main (\<lambda>s. Inl ValueError)
     ((success_world [])\<lparr>upload_resp := Inr (href_response
        (str ''https://cloud-api.yandex.net/v1/disk/operations/77''))\<rparr>) example_args))"
  using href_without_marker
    [of "href_response (str ''https://cloud-api.yandex.net/v1/disk/operations/77'')"
        "[(str ''href'', PStr (str ''https://cloud-api.yandex.net/v1/disk/operations/77''))]"
        "str ''https://cloud-api.yandex.net/v1/disk/operations/77''"
        "(success_world [])\<lparr>upload_resp := Inr (href_response
           (str ''https://cloud-api.yandex.net/v1/disk/operations/77''))\<rparr>"
        "\<lparr>status_code = 200, body = Some (PDict [])\<rparr>"
        "\<lparr>status_code = 201, body = Some (PDict [])\<rparr>"
        example_args "[104, 105]" "\<lambda>s. Inl ValueError"]
  by (simp add: success_world_def example_args_def href_response_def str_def
      sublist_Cons_right utf8_encode_char_def bind_exn_def)

end
